theory Spec2Isabelle
  imports Complex_Main
begin

section \<open>Data model\<close>

text \<open>
  The documents of \<^verbatim>\<open>models/Account\<close> and \<^verbatim>\<open>models/Transaction\<close> (the two mongoose
  schemas), the authenticated caller that \<^verbatim>\<open>authenticateToken\<close> attaches to a request, and
  the responses of \<^verbatim>\<open>middleware/validation.js\<close>.

  Conventions of the embedding:
  \<^item> an ObjectId is a natural number; the ids of a request body are taken after the
    \<^verbatim>\<open>isMongoId\<close> check, as ObjectIds;
  \<^item> a JavaScript Number is an exact rational: the arithmetic of the handlers is modelled
    without the rounding of IEEE doubles, and the amount of a request is a JSON number;
  \<^item> a string is a list of code units below 256;
  \<^item> a request is handled alone, from its first read to its last write;
  \<^item> \<^verbatim>\<open>Date.now()\<close> and \<^verbatim>\<open>Math.random()\<close> are read from an environment record;
  \<^item> \<^verbatim>\<open>save\<close> follows mongoose: the validators of the schema run first, the schema's own
    \<^verbatim>\<open>pre('save')\<close> hook runs after them, and the write under the unique indexes comes last.
\<close>

type_synonym oid = nat

datatype role = member | admin | manager | super_admin

datatype accountType = savings | current | fixed_deposit | recurring_deposit

record nominee =
  nominee_name :: "string option"
  relationship :: "string option"
  phone :: "string option"
  aadharNumber :: "string option"

record account =
  account_id :: oid
  accountNumber :: string
  userId :: oid
  cooperativeBankId :: oid
  accountType :: accountType
  balance :: rat
  minimumBalance :: rat
  interestRate :: rat
  isActive :: bool
  lastTransactionDate :: "nat option"
  nomineeDetails :: "nominee option"

datatype transactionType = deposit | withdrawal | transfer | interest | penalty

datatype status = pending | completed | failed | cancelled

text \<open>
  A Transaction document as the handlers build it, before \<^verbatim>\<open>save\<close>: the tenant is
  \<^verbatim>\<open>req.cooperativeBankId\<close>, which is undefined for a caller without a bank, and the
  transaction id is absent until the pre-save hook writes it.
\<close>

record txn =
  transactionId :: "string option"
  txn_cooperativeBankId :: "oid option"
  fromAccount :: "oid option"
  toAccount :: "oid option"
  amount :: rat
  transactionType :: transactionType
  description :: string
  balanceAfter :: rat
  txn_status :: status
  referenceNumber :: "string option"
  processedBy :: oid
  processedAt :: nat

record db =
  accounts :: "account list"
  transactions :: "txn list"

text \<open>\<^verbatim>\<open>req.user._id\<close>, \<^verbatim>\<open>req.user.role\<close> and \<^verbatim>\<open>req.cooperativeBankId\<close>.\<close>

record req =
  user_id :: oid
  user_role :: role
  req_cooperativeBankId :: "oid option"

record env =
  Date_now :: nat
  Math_random :: rat
  new_ObjectId :: oid

datatype message =
    ValidationFailed
  | AccountNotFound
  | FromAccountNotFound
  | ToAccountNotFound
  | AccessDenied
  | AccessDeniedFromAccount
  | AccountDeactivated
  | AccountsDeactivated
  | InsufficientBalance rat
  | SameAccount
  | AlreadyDeactivated
  | RemainingBalance
  | AlreadyHaveActive accountType
  | ValidationErrorMessage
  | AlreadyExists string

text \<open>What a rejected \<^verbatim>\<open>save\<close> throws: a schema validator's path, or a unique index.\<close>

datatype exn = ValidationError string | DuplicateKey string

datatype payload =
    TransactionResult txn rat
  | TransferResult txn rat rat
  | AccountResult account

text \<open>
  \<^verbatim>\<open>successResponse\<close>, \<^verbatim>\<open>errorResponse\<close>, and an exception that \<^verbatim>\<open>asyncHandler\<close> passes
  to the error middleware.
\<close>

datatype response = Success nat payload | Error nat message | Uncaught exn

text \<open>
  The error middleware of \<^verbatim>\<open>server.js\<close>: a mongoose ValidationError and a duplicate key
  (code 11000) are both answered with status 400.
\<close>

definition error_middleware :: "exn \<Rightarrow> response" where
  "error_middleware x =
     (case x of
        ValidationError path \<Rightarrow> Error 400 ValidationErrorMessage
      | DuplicateKey field \<Rightarrow> Error 400 (AlreadyExists field))"

text \<open>What the client receives for the outcome of a handler.\<close>

definition answer :: "response \<Rightarrow> response" where
  "answer res = (case res of Uncaught x \<Rightarrow> error_middleware x | Success c p \<Rightarrow> res | Error c m \<Rightarrow> res)"

section \<open>Strings\<close>

text \<open>The white space of JavaScript's \<^verbatim>\<open>\s\<close> among the code units below 256.\<close>

definition is_space :: "char \<Rightarrow> bool" where
  "is_space c =
     (c \<in> set [CHR '' '', CHR 0x09, CHR 0x0A, CHR 0x0B, CHR 0x0C, CHR 0x0D, CHR 0xA0])"

definition trim :: "string \<Rightarrow> string" where
  "trim s = rev (dropWhile is_space (rev (dropWhile is_space s)))"

definition digit_char :: "nat \<Rightarrow> char" where
  "digit_char d = ''0123456789'' ! d"

text \<open>\<^verbatim>\<open>String(n)\<close> for a non-negative integer: its decimal digits.\<close>

fun String_of :: "nat \<Rightarrow> string" where
  "String_of n = (if n < 10 then [digit_char n] else String_of (n div 10) @ [digit_char (n mod 10)])"

declare String_of.simps [simp del]

definition padStart :: "nat \<Rightarrow> char \<Rightarrow> string \<Rightarrow> string" where
  "padStart n c s = replicate (n - length s) c @ s"

section \<open>The Account model\<close>

definition findById :: "db \<Rightarrow> oid \<Rightarrow> account option" where
  "findById st i = find (\<lambda>a. account_id a = i) (accounts st)"

text \<open>
  The validators of the Account schema, run by every \<^verbatim>\<open>save\<close>: the account number is
  required, and balance, minimum balance and interest rate have the minimum 0.
\<close>

definition Account_validate :: "account \<Rightarrow> exn option" where
  "Account_validate a =
     (if accountNumber a = [] then Some (ValidationError ''accountNumber'')
      else if balance a < 0 then Some (ValidationError ''balance'')
      else if minimumBalance a < 0 then Some (ValidationError ''minimumBalance'')
      else if interestRate a < 0 then Some (ValidationError ''interestRate'')
      else None)"

text \<open>The write of a loaded document: the stored document with its id is replaced.\<close>

definition Account_replace :: "account \<Rightarrow> db \<Rightarrow> db" where
  "Account_replace a st =
     st\<lparr>accounts := map (\<lambda>b. if account_id b = account_id a then a else b) (accounts st)\<rparr>"

text \<open>
  \<^verbatim>\<open>account.save()\<close> on a loaded document: the validators, then the write. The pre-save
  hook finds the account number set and does nothing.
\<close>

definition Account_save :: "account \<Rightarrow> db \<Rightarrow> exn + db" where
  "Account_save a st =
     (case Account_validate a of
        Some e \<Rightarrow> Inl e
      | None \<Rightarrow> Inr (Account_replace a st))"

section \<open>The Transaction model\<close>

text \<open>The pre-save hook: \<^verbatim>\<open>TXN\<close>, the clock, and three digits drawn at random.\<close>

definition generate_transactionId :: "env \<Rightarrow> string" where
  "generate_transactionId e =
     ''TXN'' @ String_of (Date_now e)
       @ padStart 3 (CHR ''0'') (String_of (nat \<lfloor>Math_random e * 1000\<rfloor>))"

definition Transaction_validate :: "txn \<Rightarrow> exn option" where
  "Transaction_validate t =
     (if transactionId t = None then Some (ValidationError ''transactionId'')
      else if txn_cooperativeBankId t = None then Some (ValidationError ''cooperativeBankId'')
      else if transactionType t \<noteq> deposit \<and> fromAccount t = None
        then Some (ValidationError ''fromAccount'')
      else if transactionType t = transfer \<and> toAccount t = None
        then Some (ValidationError ''toAccount'')
      else if amount t < 1 / 100 then Some (ValidationError ''amount'')
      else if description t = [] \<or> 200 < length (description t)
        then Some (ValidationError ''description'')
      else None)"

text \<open>
  The unique indexes of the Transaction collection: \<^verbatim>\<open>transactionId\<close>, and
  \<^verbatim>\<open>referenceNumber\<close> (sparse: only documents that have one take part).
\<close>

definition Transaction_unique :: "txn \<Rightarrow> txn list \<Rightarrow> exn option" where
  "Transaction_unique t ts =
     (if list_ex (\<lambda>u. transactionId u = transactionId t) ts
        then Some (DuplicateKey ''transactionId'')
      else if referenceNumber t \<noteq> None \<and> list_ex (\<lambda>u. referenceNumber u = referenceNumber t) ts
        then Some (DuplicateKey ''referenceNumber'')
      else None)"

text \<open>The pre-save hook of the Transaction schema.\<close>

definition Transaction_pre_save :: "env \<Rightarrow> txn \<Rightarrow> txn" where
  "Transaction_pre_save e t =
     (if transactionId t = None then t\<lparr>transactionId := Some (generate_transactionId e)\<rparr>
      else t)"

text \<open>
  \<^verbatim>\<open>transaction.save()\<close> on a new document: the validators (among them the required
  \<^verbatim>\<open>transactionId\<close>), then the hook, then the insert under the unique indexes. It returns
  the stored document.
\<close>

definition Transaction_save :: "env \<Rightarrow> txn \<Rightarrow> db \<Rightarrow> exn + (txn \<times> db)" where
  "Transaction_save e t st =
     (case Transaction_validate t of
        Some x \<Rightarrow> Inl x
      | None \<Rightarrow>
          (let t1 = Transaction_pre_save e t
           in case Transaction_unique t1 (transactions st) of
                Some x \<Rightarrow> Inl x
              | None \<Rightarrow> Inr (t1, st\<lparr>transactions := transactions st @ [t1]\<rparr>)))"

text \<open>\<^verbatim>\<open>new Transaction({...})\<close> with the schema's defaults.\<close>

definition new_Transaction ::
  "env \<Rightarrow> req \<Rightarrow> oid option \<Rightarrow> oid option \<Rightarrow> rat \<Rightarrow> transactionType \<Rightarrow> string \<Rightarrow> rat
     \<Rightarrow> string option \<Rightarrow> txn" where
  "new_Transaction e r from to amt ty descr bal refno =
     \<lparr>transactionId = None, txn_cooperativeBankId = req_cooperativeBankId r,
      fromAccount = from, toAccount = to, amount = amt, transactionType = ty,
      description = descr, balanceAfter = bal, txn_status = completed,
      referenceNumber = refno, processedBy = user_id r, processedAt = Date_now e\<rparr>"

section \<open>Request validation\<close>

text \<open>The express-validator chains of the transaction routes.\<close>

definition valid_amount :: "rat \<Rightarrow> bool" where
  "valid_amount amt = (1 / 100 \<le> amt)"

definition valid_description :: "string \<Rightarrow> bool" where
  "valid_description d = (trim d \<noteq> [] \<and> length (trim d) \<le> 200)"

definition valid_referenceNumber :: "string option \<Rightarrow> bool" where
  "valid_referenceNumber r = (case r of None \<Rightarrow> True | Some s \<Rightarrow> length (trim s) \<le> 50)"

section \<open>POST /deposit and POST /withdraw\<close>

definition post_deposit ::
  "env \<Rightarrow> req \<Rightarrow> oid \<Rightarrow> rat \<Rightarrow> string \<Rightarrow> string option \<Rightarrow> db \<Rightarrow> response \<times> db" where
  "post_deposit e r accountId amt descr refno st =
     (if \<not> (valid_amount amt \<and> valid_description descr \<and> valid_referenceNumber refno)
        then (Error 400 ValidationFailed, st)
      else case findById st accountId of
        None \<Rightarrow> (Error 404 AccountNotFound, st)
      | Some acc \<Rightarrow>
          if userId acc \<noteq> user_id r \<and> user_role r \<notin> set [admin, manager]
            then (Error 403 AccessDenied, st)
          else if \<not> isActive acc then (Error 400 AccountDeactivated, st)
          else
            let newBalance = balance acc + amt;
                acc1 = acc\<lparr>balance := newBalance, lastTransactionDate := Some (Date_now e)\<rparr>
            in (case Account_save acc1 st of
                  Inl x \<Rightarrow> (Uncaught x, st)
                | Inr st1 \<Rightarrow>
                    (case Transaction_save e
                            (new_Transaction e r (Some accountId) None amt deposit (trim descr)
                               newBalance (map_option trim refno)) st1 of
                       Inl x \<Rightarrow> (Uncaught x, st1)
                     | Inr (t, st2) \<Rightarrow>
                         (Success 201 (TransactionResult t newBalance), st2))))"

definition post_withdraw ::
  "env \<Rightarrow> req \<Rightarrow> oid \<Rightarrow> rat \<Rightarrow> string \<Rightarrow> db \<Rightarrow> response \<times> db" where
  "post_withdraw e r accountId amt descr st =
     (if \<not> (valid_amount amt \<and> valid_description descr)
        then (Error 400 ValidationFailed, st)
      else case findById st accountId of
        None \<Rightarrow> (Error 404 AccountNotFound, st)
      | Some acc \<Rightarrow>
          if userId acc \<noteq> user_id r \<and> user_role r \<notin> set [admin, manager]
            then (Error 403 AccessDenied, st)
          else if \<not> isActive acc then (Error 400 AccountDeactivated, st)
          else
            let availableBalance = balance acc - minimumBalance acc
            in if availableBalance < amt
                 then (Error 400 (InsufficientBalance availableBalance), st)
               else
                 let newBalance = balance acc - amt;
                     acc1 = acc\<lparr>balance := newBalance, lastTransactionDate := Some (Date_now e)\<rparr>
                 in (case Account_save acc1 st of
                       Inl x \<Rightarrow> (Uncaught x, st)
                     | Inr st1 \<Rightarrow>
                         (case Transaction_save e
                                 (new_Transaction e r (Some accountId) None amt withdrawal
                                    (trim descr) newBalance None) st1 of
                            Inl x \<Rightarrow> (Uncaught x, st1)
                          | Inr (t, st2) \<Rightarrow>
                              (Success 201 (TransactionResult t newBalance), st2))))"

section \<open>POST /transfer\<close>

text \<open>
  The transfer runs its three writes in a session of the store. A session is the list of
  writes staged so far, in the order the handler issued them; \<^verbatim>\<open>commitTransaction\<close>
  applies them in that order, and \<^verbatim>\<open>abortTransaction\<close> drops them.
\<close>

datatype staged = SaveAccount account | InsertTransaction txn

type_synonym session = "staged list"

definition session_Account_save :: "account \<Rightarrow> session \<Rightarrow> exn + session" where
  "session_Account_save a s =
     (case Account_validate a of
        Some x \<Rightarrow> Inl x
      | None \<Rightarrow> Inr (s @ [SaveAccount a]))"

definition session_Transaction_save ::
  "env \<Rightarrow> txn \<Rightarrow> db \<Rightarrow> session \<Rightarrow> exn + (txn \<times> session)" where
  "session_Transaction_save e t st s =
     (case Transaction_validate t of
        Some x \<Rightarrow> Inl x
      | None \<Rightarrow>
          (let t1 = Transaction_pre_save e t
           in case Transaction_unique t1 (transactions st) of
                Some x \<Rightarrow> Inl x
              | None \<Rightarrow> Inr (t1, s @ [InsertTransaction t1])))"

fun apply_write :: "db \<Rightarrow> staged \<Rightarrow> db" where
  "apply_write st (SaveAccount a) = Account_replace a st"
| "apply_write st (InsertTransaction t) = st\<lparr>transactions := transactions st @ [t]\<rparr>"

definition commitTransaction :: "session \<Rightarrow> db \<Rightarrow> db" where
  "commitTransaction s st = foldl apply_write st s"

text \<open>
  The body of the \<^verbatim>\<open>try\<close> block, up to the commit: how the block ended (the exception
  thrown, or the payload of the response) and the writes it had staged by then. The two
  ids the Transaction record takes from the request are the ids of the two documents that
  \<^verbatim>\<open>findById\<close> returned for them.
\<close>

definition transfer_try ::
  "env \<Rightarrow> req \<Rightarrow> account \<Rightarrow> account \<Rightarrow> rat \<Rightarrow> string \<Rightarrow> db \<Rightarrow> (exn + payload) \<times> session" where
  "transfer_try e r fromAcc toAcc amt descr st =
     (let from1 = fromAcc\<lparr>balance := balance fromAcc - amt,
                          lastTransactionDate := Some (Date_now e)\<rparr>
      in case session_Account_save from1 [] of
           Inl x \<Rightarrow> (Inl x, [])
         | Inr s1 \<Rightarrow>
             (let to1 = toAcc\<lparr>balance := balance toAcc + amt,
                               lastTransactionDate := Some (Date_now e)\<rparr>
              in case session_Account_save to1 s1 of
                   Inl x \<Rightarrow> (Inl x, s1)
                 | Inr s2 \<Rightarrow>
                     (case session_Transaction_save e
                             (new_Transaction e r (Some (account_id fromAcc))
                                (Some (account_id toAcc)) amt transfer descr (balance from1) None)
                             st s2 of
                        Inl x \<Rightarrow> (Inl x, s2)
                      | Inr (t, s3) \<Rightarrow>
                          (Inr (TransferResult t (balance from1) (balance to1)), s3))))"

text \<open>
  The handler. On an exception the \<^verbatim>\<open>catch\<close> block aborts the session, which drops the
  staged writes, and throws the exception on.
\<close>

definition post_transfer ::
  "env \<Rightarrow> req \<Rightarrow> oid \<Rightarrow> oid \<Rightarrow> rat \<Rightarrow> string \<Rightarrow> db \<Rightarrow> response \<times> db" where
  "post_transfer e r fromAccountId toAccountId amt descr st =
     (if \<not> (valid_amount amt \<and> valid_description descr)
        then (Error 400 ValidationFailed, st)
      else if fromAccountId = toAccountId then (Error 400 SameAccount, st)
      else case findById st fromAccountId of
        None \<Rightarrow> (Error 404 FromAccountNotFound, st)
      | Some fromAcc \<Rightarrow>
          (case findById st toAccountId of
             None \<Rightarrow> (Error 404 ToAccountNotFound, st)
           | Some toAcc \<Rightarrow>
               if userId fromAcc \<noteq> user_id r \<and> user_role r \<notin> set [admin, manager]
                 then (Error 403 AccessDeniedFromAccount, st)
               else if \<not> isActive fromAcc \<or> \<not> isActive toAcc
                 then (Error 400 AccountsDeactivated, st)
               else
                 let availableBalance = balance fromAcc - minimumBalance fromAcc
                 in if availableBalance < amt
                      then (Error 400 (InsufficientBalance availableBalance), st)
                    else
                      (case transfer_try e r fromAcc toAcc amt (trim descr) st of
                         (Inl x, s) \<Rightarrow> (Uncaught x, st)
                       | (Inr res, s) \<Rightarrow> (Success 201 res, commitTransaction s st))))"

section \<open>The account routes\<close>

definition countDocuments :: "db \<Rightarrow> oid \<Rightarrow> nat" where
  "countDocuments st bank = length (filter (\<lambda>a. cooperativeBankId a = bank) (accounts st))"

text \<open>
  The pre-save hook of the Account schema. A new document has no account number
  (the empty string here, which \<^verbatim>\<open>!this.accountNumber\<close> takes as absent too).
\<close>

definition Account_pre_save :: "account \<Rightarrow> db \<Rightarrow> account" where
  "Account_pre_save a st =
     (if accountNumber a = []
        then a\<lparr>accountNumber :=
                 padStart 12 (CHR ''0'') (String_of (countDocuments st (cooperativeBankId a) + 1))\<rparr>
      else a)"

text \<open>The unique indexes of the Account collection: \<^verbatim>\<open>_id\<close> and \<^verbatim>\<open>accountNumber\<close>.\<close>

definition Account_unique :: "account \<Rightarrow> account list \<Rightarrow> exn option" where
  "Account_unique a as =
     (if list_ex (\<lambda>b. account_id b = account_id a) as then Some (DuplicateKey ''_id'')
      else if list_ex (\<lambda>b. accountNumber b = accountNumber a) as
        then Some (DuplicateKey ''accountNumber'')
      else None)"

text \<open>
  \<^verbatim>\<open>account.save()\<close> on a new document: the validators (among them the required
  \<^verbatim>\<open>accountNumber\<close>), then the hook, then the insert under the unique indexes.
\<close>

definition Account_insert :: "account \<Rightarrow> db \<Rightarrow> exn + (account \<times> db)" where
  "Account_insert a st =
     (case Account_validate a of
        Some x \<Rightarrow> Inl x
      | None \<Rightarrow>
          (let a1 = Account_pre_save a st
           in case Account_unique a1 (accounts st) of
                Some x \<Rightarrow> Inl x
              | None \<Rightarrow> Inr (a1, st\<lparr>accounts := accounts st @ [a1]\<rparr>)))"

definition is_digits :: "nat \<Rightarrow> string \<Rightarrow> bool" where
  "is_digits n s = (length s = n \<and> list_all (\<lambda>c. c \<in> set ''0123456789'') s)"

definition valid_optional :: "('a \<Rightarrow> bool) \<Rightarrow> 'a option \<Rightarrow> bool" where
  "valid_optional p v = (case v of None \<Rightarrow> True | Some x \<Rightarrow> p x)"

definition valid_nominee :: "nominee \<Rightarrow> bool" where
  "valid_nominee n =
     (valid_optional (\<lambda>s. trim s \<noteq> []) (nominee_name n) \<and>
      valid_optional (\<lambda>s. trim s \<noteq> []) (relationship n) \<and>
      valid_optional (is_digits 10) (phone n) \<and>
      valid_optional (is_digits 12) (aadharNumber n))"

text \<open>The \<^verbatim>\<open>trim()\<close> sanitizers of the nominee's name and relationship.\<close>

definition sanitize_nominee :: "nominee \<Rightarrow> nominee" where
  "sanitize_nominee n =
     n\<lparr>nominee_name := map_option trim (nominee_name n),
       relationship := map_option trim (relationship n)\<rparr>"

text \<open>\<^verbatim>\<open>v || d\<close> on an optional number: absent and zero both give the default.\<close>

definition or_default :: "rat option \<Rightarrow> rat \<Rightarrow> rat" where
  "or_default v d = (case v of None \<Rightarrow> d | Some x \<Rightarrow> if x = 0 then d else x)"

text \<open>\<^verbatim>\<open>new Account({...})\<close> with the schema's defaults; the account number is not set yet.\<close>

definition new_Account ::
  "env \<Rightarrow> req \<Rightarrow> oid \<Rightarrow> accountType \<Rightarrow> rat option \<Rightarrow> rat option \<Rightarrow> nominee option \<Rightarrow> account" where
  "new_Account e r bank ty minBal rate nom =
     \<lparr>account_id = new_ObjectId e, accountNumber = [], userId = user_id r,
      cooperativeBankId = bank, accountType = ty, balance = 0,
      minimumBalance = or_default minBal (if ty = savings then 1000 else 0),
      interestRate = or_default rate (if ty = savings then 4 else 0),
      isActive = True, lastTransactionDate = None,
      nomineeDetails = map_option sanitize_nominee nom\<rparr>"

text \<open>
  POST /. A caller without a bank has \<^verbatim>\<open>req.cooperativeBankId\<close> undefined, and the
  \<^verbatim>\<open>required\<close> validator of \<^verbatim>\<open>cooperativeBankId\<close> rejects the save.
\<close>

definition post_account ::
  "env \<Rightarrow> req \<Rightarrow> accountType \<Rightarrow> rat option \<Rightarrow> rat option \<Rightarrow> nominee option \<Rightarrow> db
     \<Rightarrow> response \<times> db" where
  "post_account e r ty minBal rate nom st =
     (if \<not> (valid_optional (\<lambda>m. 0 \<le> m) minBal \<and> valid_optional (\<lambda>i. 0 \<le> i) rate \<and>
             valid_optional valid_nominee nom)
        then (Error 400 ValidationFailed, st)
      else if list_ex (\<lambda>a. userId a = user_id r \<and> accountType a = ty \<and> isActive a) (accounts st)
        then (Error 400 (AlreadyHaveActive ty), st)
      else case req_cooperativeBankId r of
        None \<Rightarrow> (Uncaught (ValidationError ''cooperativeBankId''), st)
      | Some bank \<Rightarrow>
          (case Account_insert (new_Account e r bank ty minBal rate nom) st of
             Inl x \<Rightarrow> (Uncaught x, st)
           | Inr (a, st1) \<Rightarrow> (Success 201 (AccountResult a), st1)))"

text \<open>PUT /:accountId. Only \<^verbatim>\<open>nomineeDetails\<close> is an allowed update.\<close>

definition put_account :: "req \<Rightarrow> oid \<Rightarrow> nominee option \<Rightarrow> db \<Rightarrow> response \<times> db" where
  "put_account r accountId nom st =
     (if \<not> valid_optional valid_nominee nom then (Error 400 ValidationFailed, st)
      else case findById st accountId of
        None \<Rightarrow> (Error 404 AccountNotFound, st)
      | Some acc \<Rightarrow>
          if userId acc \<noteq> user_id r \<and> user_role r \<notin> set [admin, manager]
            then (Error 403 AccessDenied, st)
          else
            let updatedAccount =
                  (case nom of
                     None \<Rightarrow> acc
                   | Some n \<Rightarrow> acc\<lparr>nomineeDetails := Some (sanitize_nominee n)\<rparr>)
            in (Success 200 (AccountResult updatedAccount), Account_replace updatedAccount st))"

text \<open>PUT /:accountId/deactivate.\<close>

definition put_deactivate :: "req \<Rightarrow> oid \<Rightarrow> db \<Rightarrow> response \<times> db" where
  "put_deactivate r accountId st =
     (case findById st accountId of
        None \<Rightarrow> (Error 404 AccountNotFound, st)
      | Some acc \<Rightarrow>
          if userId acc \<noteq> user_id r \<and> user_role r \<notin> set [admin, manager]
            then (Error 403 AccessDenied, st)
          else if \<not> isActive acc then (Error 400 AlreadyDeactivated, st)
          else if 0 < balance acc then (Error 400 RemainingBalance, st)
          else
            let acc1 = acc\<lparr>isActive := False\<rparr>
            in (case Account_save acc1 st of
                  Inl x \<Rightarrow> (Uncaught x, st)
                | Inr st1 \<Rightarrow> (Success 200 (AccountResult acc1), st1)))"

section \<open>The operations of the system\<close>

datatype operation =
    CreateAccount accountType "rat option" "rat option" "nominee option"
  | Deposit oid rat string "string option"
  | Withdraw oid rat string
  | Transfer oid oid rat string
  | UpdateAccount oid "nominee option"
  | Deactivate oid

fun handle :: "env \<Rightarrow> req \<Rightarrow> operation \<Rightarrow> db \<Rightarrow> response \<times> db" where
  "handle e r (CreateAccount ty minBal rate nom) st = post_account e r ty minBal rate nom st"
| "handle e r (Deposit a amt d refno) st = post_deposit e r a amt d refno st"
| "handle e r (Withdraw a amt d) st = post_withdraw e r a amt d st"
| "handle e r (Transfer a b amt d) st = post_transfer e r a b amt d st"
| "handle e r (UpdateAccount a nom) st = put_account r a nom st"
| "handle e r (Deactivate a) st = put_deactivate r a st"

section \<open>Loading the module routes/transactions.js\<close>

text \<open>
  What \<^verbatim>\<open>require('./routes/transactions')\<close> runs: the top-level statements of the
  module, in order. A statement evaluates identifiers (those of its right-hand side, or of
  the arguments of a route registration; the bodies of the handlers are closures and run
  only on a request) and may bind names. Evaluating an identifier that is not in scope
  throws a ReferenceError, which ends the load before \<^verbatim>\<open>module.exports\<close> is assigned.
\<close>

datatype http_method = GET | POST

datatype statement =
    Const "string list" "string list"
  | Route http_method string "string list"
  | Export string

datatype js_error = ReferenceError string

record module_state =
  scope :: "string list"
  router :: "(http_method \<times> string) list"
  exports :: "(http_method \<times> string) list option"

definition unbound :: "string list \<Rightarrow> string list \<Rightarrow> string option" where
  "unbound sc ids = find (\<lambda>x. x \<notin> set sc) ids"

fun exec :: "statement \<Rightarrow> module_state \<Rightarrow> js_error + module_state" where
  "exec (Const names ids) m =
     (case unbound (scope m) ids of
        Some x \<Rightarrow> Inl (ReferenceError x)
      | None \<Rightarrow> Inr (m\<lparr>scope := scope m @ names\<rparr>))"
| "exec (Route meth path ids) m =
     (case unbound (scope m) ids of
        Some x \<Rightarrow> Inl (ReferenceError x)
      | None \<Rightarrow> Inr (m\<lparr>router := router m @ [(meth, path)]\<rparr>))"
| "exec (Export x) m =
     (case unbound (scope m) [''module'', x] of
        Some y \<Rightarrow> Inl (ReferenceError y)
      | None \<Rightarrow> Inr (m\<lparr>exports := Some (router m)\<rparr>))"

fun run :: "statement list \<Rightarrow> module_state \<Rightarrow> js_error + module_state" where
  "run [] m = Inr m"
| "run (x # xs) m = (case exec x m of Inl err \<Rightarrow> Inl err | Inr m1 \<Rightarrow> run xs m1)"

definition require_module :: "statement list \<Rightarrow> js_error + module_state" where
  "require_module stmts =
     run stmts \<lparr>scope = [''require'', ''module''], router = [], exports = None\<rparr>"

text \<open>The names a module binds at its top level.\<close>

fun binds :: "statement \<Rightarrow> string list" where
  "binds (Const names ids) = names"
| "binds (Route meth path ids) = []"
| "binds (Export x) = []"

text \<open>
  A request reaches a handler of the module only through the router the module exported.
\<close>

definition served :: "statement list \<Rightarrow> http_method \<Rightarrow> string \<Rightarrow> bool" where
  "served stmts meth path =
     (case require_module stmts of
        Inl err \<Rightarrow> False
      | Inr m \<Rightarrow> (case exports m of None \<Rightarrow> False | Some rs \<Rightarrow> (meth, path) \<in> set rs))"

text \<open>The statements of \<^verbatim>\<open>routes/transactions.js\<close>, lines 1 to 386.\<close>

definition transactions_js :: "statement list" where
  "transactions_js =
     [Const [''express''] [''require''],
      Const [''body'', ''param''] [''require''],
      Const [''Account''] [''require''],
      Const [''Transaction''] [''require''],
      Const [''authenticateToken'', ''authorizeRoles''] [''require''],
      Const [''handleValidationErrors'', ''asyncHandler'', ''successResponse'', ''errorResponse'']
        [''require''],
      Const [''router''] [''express''],
      Route POST ''/deposit''
        [''router'', ''authenticateToken'', ''body'', ''body'', ''body'', ''body'',
         ''handleValidationErrors'', ''asyncHandler''],
      Route POST ''/withdraw''
        [''router'', ''authenticateToken'', ''body'', ''body'', ''body'',
         ''handleValidationErrors'', ''asyncHandler''],
      Route POST ''/transfer''
        [''router'', ''authenticateToken'', ''body'', ''body'', ''body'', ''body'',
         ''handleValidationErrors'', ''asyncHandler''],
      Route GET ''/history/:accountId''
        [''router'', ''authenticateToken'', ''param'', ''handleValidationErrors'', ''asyncHandler''],
      Route GET ''/:transactionId''
        [''router'', ''authenticateToken'', ''param'', ''handleValidationErrors'', ''asyncHandler''],
      Route GET ''/admin/all-transactions''
        [''router'', ''authenticateToken'', ''authorizeRoles'', ''authorizeBankAccess'',
         ''asyncHandler''],
      Route GET ''/admin/stats''
        [''router'', ''authenticateToken'', ''authorizeRoles'', ''authorizeBankAccess'',
         ''asyncHandler''],
      Export ''router'']"

section \<open>The order of a transfer's writes\<close>

fun saved_ids :: "session \<Rightarrow> oid list" where
  "saved_ids [] = []"
| "saved_ids (SaveAccount a # s) = account_id a # saved_ids s"
| "saved_ids (InsertTransaction t # s) = saved_ids s"


section \<open>Example data\<close>

text \<open>
  Two banks, 100 and 200. Users 10 and 11 are members of bank 100, user 20 is a member of
  bank 200, user 30 is the admin of bank 200 and user 1 is the super admin.
\<close>

definition clock :: env where
  "clock = \<lparr>Date_now = 1700000000000, Math_random = 1 / 2, new_ObjectId = 9\<rparr>"

definition user10 :: req where
  "user10 = \<lparr>user_id = 10, user_role = member, req_cooperativeBankId = Some 100\<rparr>"

definition user20 :: req where
  "user20 = \<lparr>user_id = 20, user_role = member, req_cooperativeBankId = Some 200\<rparr>"

definition root :: req where
  "root = \<lparr>user_id = 1, user_role = super_admin, req_cooperativeBankId = Some 100\<rparr>"

definition open_account :: "oid \<Rightarrow> string \<Rightarrow> oid \<Rightarrow> oid \<Rightarrow> rat \<Rightarrow> rat \<Rightarrow> account" where
  "open_account i number owner bank bal minBal =
     \<lparr>account_id = i, accountNumber = number, userId = owner, cooperativeBankId = bank,
      accountType = savings, balance = bal, minimumBalance = minBal, interestRate = 4,
      isActive = True, lastTransactionDate = None, nomineeDetails = None\<rparr>"

text \<open>Account A of user 10 and account B of user 11, both of bank 100.\<close>

definition acctA :: account where
  "acctA = open_account 1 ''000000000001'' 10 100 5000 1000"

definition acctB :: account where
  "acctB = open_account 2 ''000000000002'' 11 100 500 0"

text \<open>Account C of user 20, of bank 200.\<close>

definition acctC :: account where
  "acctC = open_account 3 ''000000000003'' 20 200 500 0"

text \<open>A savings account whose balance is its minimum balance.\<close>

definition acctD :: account where
  "acctD = open_account 4 ''000000000004'' 10 100 1000 1000"

text \<open>An account with nothing in it.\<close>

definition acctE :: account where
  "acctE = open_account 5 ''000000000005'' 10 100 0 0"

definition empty_db :: db where
  "empty_db = \<lparr>accounts = [], transactions = []\<rparr>"

definition bank_db :: db where
  "bank_db = \<lparr>accounts = [acctA, acctB, acctC, acctD, acctE], transactions = []\<rparr>"

text \<open>
  A store whose one account, of bank 200, carries the number \<^verbatim>\<open>000000000001\<close>, and the
  new document that POST / builds for user 10 of bank 100.
\<close>

definition first_account_200 :: account where
  "first_account_200 = open_account 9 ''000000000001'' 20 200 0 1000"

definition one_account_db :: db where
  "one_account_db = \<lparr>accounts = [first_account_200], transactions = []\<rparr>"

definition draft_account_100 :: account where
  "draft_account_100 =
     new_Account (clock\<lparr>new_ObjectId := 10\<rparr>) user10 100 savings None None None"

section \<open>Evaluation on concrete inputs\<close>

lemma replicate_numeral: "replicate (numeral v) x = x # replicate (pred_numeral v) x"
  by (simp add: numeral_eq_Suc)

lemmas string_simps =
  String_of.simps digit_char_def padStart_def replicate_numeral trim_def is_space_def

lemmas example_simps =
  clock_def user10_def user20_def root_def open_account_def acctA_def acctB_def acctC_def
  acctD_def acctE_def empty_db_def bank_db_def first_account_200_def one_account_db_def
  draft_account_100_def

lemmas validator_simps =
  valid_amount_def valid_description_def valid_referenceNumber_def valid_optional_def

section \<open>Lookups after a write\<close>

lemma find_account_id: "find (\<lambda>a. account_id a = i) xs = Some a \<Longrightarrow> a \<in> set xs \<and> account_id a = i"
  by (induction xs) (auto split: if_splits)

lemma findById_SomeD: "findById st i = Some a \<Longrightarrow> a \<in> set (accounts st) \<and> account_id a = i"
  unfolding findById_def by (rule find_account_id)

lemma findById_account_id: "findById st i = Some a \<Longrightarrow> account_id a = i"
  by (simp add: findById_SomeD)

lemma find_replace_same:
  "find (\<lambda>a. account_id a = account_id b) xs \<noteq> None \<Longrightarrow>
   find (\<lambda>a. account_id a = account_id b)
     (map (\<lambda>c. if account_id c = account_id b then b else c) xs) = Some b"
  by (induction xs) auto

lemma findById_replace_same:
  "findById st (account_id b) \<noteq> None \<Longrightarrow> findById (Account_replace b st) (account_id b) = Some b"
  by (simp add: findById_def Account_replace_def find_replace_same)

lemma transactions_replace [simp]: "transactions (Account_replace b st) = transactions st"
  by (simp add: Account_replace_def)

section \<open>What the saves do\<close>

lemma Account_validate_None:
  "Account_validate a = None \<longleftrightarrow>
     accountNumber a \<noteq> [] \<and> 0 \<le> balance a \<and> 0 \<le> minimumBalance a \<and> 0 \<le> interestRate a"
  by (auto simp: Account_validate_def)

lemma Account_save_Inr:
  "Account_save a st = Inr st1 \<longleftrightarrow> Account_validate a = None \<and> st1 = Account_replace a st"
  by (auto simp: Account_save_def split: option.splits)

text \<open>
  A Transaction document that a handler builds has no transaction id, and the validators
  run before the hook that would write one: the save is refused.
\<close>

lemma Transaction_validate_new:
  "Transaction_validate (new_Transaction e r from to amt ty d bal refno)
     = Some (ValidationError ''transactionId'')"
  by (simp add: Transaction_validate_def new_Transaction_def)

lemma Transaction_save_new:
  "Transaction_save e (new_Transaction e r from to amt ty d bal refno) st
     = Inl (ValidationError ''transactionId'')"
  by (simp add: Transaction_save_def Transaction_validate_new)

lemma session_Transaction_save_new:
  "session_Transaction_save e (new_Transaction e r from to amt ty d bal refno) st s
     = Inl (ValidationError ''transactionId'')"
  by (simp add: session_Transaction_save_def Transaction_validate_new)

text \<open>The same holds of the Account document that POST / builds: it has no number yet.\<close>

lemma Account_insert_new:
  "Account_insert (new_Account e r bank ty minBal rate nom) st
     = Inl (ValidationError ''accountNumber'')"
  by (simp add: Account_insert_def Account_validate_def new_Account_def)

section \<open>Balances stay non-negative\<close>

lemma replace_nonneg:
  "list_all (\<lambda>a. 0 \<le> balance a) (accounts st) \<Longrightarrow> 0 \<le> balance b \<Longrightarrow>
   list_all (\<lambda>a. 0 \<le> balance a) (accounts (Account_replace b st))"
  by (auto simp: Account_replace_def list_all_iff)

lemma Account_save_nonneg:
  "list_all (\<lambda>a. 0 \<le> balance a) (accounts st) \<Longrightarrow> Account_save b st = Inr st1 \<Longrightarrow>
   list_all (\<lambda>a. 0 \<le> balance a) (accounts st1)"
  by (auto simp: Account_save_Inr Account_validate_None intro: replace_nonneg)

lemma Transaction_save_accounts:
  "Transaction_save e t st = Inr (t1, st1) \<Longrightarrow> accounts st1 = accounts st"
  by (auto simp: Transaction_save_def Let_def split: option.splits)

lemma post_deposit_nonneg:
  "list_all (\<lambda>a. 0 \<le> balance a) (accounts st) \<Longrightarrow>
   list_all (\<lambda>a. 0 \<le> balance a) (accounts (snd (post_deposit e r a amt d refno st)))"
  by (auto simp: post_deposit_def Let_def Transaction_save_accounts
      split: option.splits sum.splits dest: Account_save_nonneg)

lemma post_withdraw_nonneg:
  "list_all (\<lambda>a. 0 \<le> balance a) (accounts st) \<Longrightarrow>
   list_all (\<lambda>a. 0 \<le> balance a) (accounts (snd (post_withdraw e r a amt d st)))"
  by (auto simp: post_withdraw_def Let_def Transaction_save_accounts
      split: option.splits sum.splits dest: Account_save_nonneg)

section \<open>What a transfer stages\<close>

lemma session_Account_save_Inr:
  "session_Account_save a s = Inr s1 \<longleftrightarrow> Account_validate a = None \<and> s1 = s @ [SaveAccount a]"
  by (auto simp: session_Account_save_def split: option.splits)

lemma session_Account_save_valid:
  "Account_validate a = None \<Longrightarrow> session_Account_save a s = Inr (s @ [SaveAccount a])"
  by (simp add: session_Account_save_def)

text \<open>The \<^verbatim>\<open>try\<close> block never completes: its last save is always refused.\<close>

lemma transfer_try_throws: "\<exists>x. fst (transfer_try e r fa ta amt d st) = Inl x"
  by (auto simp: transfer_try_def Let_def session_Transaction_save_new split: sum.splits)

lemma transfer_try_staged:
  assumes "Account_validate (fa\<lparr>balance := balance fa - amt,
                                 lastTransactionDate := Some (Date_now e)\<rparr>) = None"
      and "Account_validate (ta\<lparr>balance := balance ta + amt,
                                 lastTransactionDate := Some (Date_now e)\<rparr>) = None"
  shows "transfer_try e r fa ta amt d st =
           (Inl (ValidationError ''transactionId''),
            [SaveAccount (fa\<lparr>balance := balance fa - amt,
                              lastTransactionDate := Some (Date_now e)\<rparr>),
             SaveAccount (ta\<lparr>balance := balance ta + amt,
                              lastTransactionDate := Some (Date_now e)\<rparr>)])"
  using assms
  by (simp add: transfer_try_def Let_def session_Account_save_valid session_Transaction_save_new)

lemma transfer_outcome:
  "(case transfer_try e r fa ta amt d st of
      (Inl x, s) \<Rightarrow> (Uncaught x, st0)
    | (Inr res, s) \<Rightarrow> (Success 201 res, commitTransaction s st0))
   = (Uncaught (projl (fst (transfer_try e r fa ta amt d st))), st0)"
proof -
  obtain x where "fst (transfer_try e r fa ta amt d st) = Inl x"
    using transfer_try_throws by blast
  then show ?thesis
    by (cases "transfer_try e r fa ta amt d st") auto
qed

lemma post_transfer_writes_nothing: "snd (post_transfer e r f t amt d st) = st"
  by (simp add: post_transfer_def Let_def transfer_outcome split: option.splits)

lemma post_transfer_no_success: "fst (post_transfer e r f t amt d st) \<noteq> Success c p"
  by (simp add: post_transfer_def Let_def transfer_outcome split: option.splits)

lemma post_transfer_nonneg:
  "list_all (\<lambda>a. 0 \<le> balance a) (accounts st) \<Longrightarrow>
   list_all (\<lambda>a. 0 \<le> balance a) (accounts (snd (post_transfer e r f t amt d st)))"
  by (simp add: post_transfer_writes_nothing)

section \<open>What the account routes write\<close>

lemma post_account_writes_nothing: "snd (post_account e r ty minBal rate nom st) = st"
  by (simp add: post_account_def Account_insert_new split: option.splits)

lemma post_account_no_success: "fst (post_account e r ty minBal rate nom st) \<noteq> Success c p"
  by (simp add: post_account_def Account_insert_new split: option.splits)

lemma post_account_nonneg:
  "list_all (\<lambda>a. 0 \<le> balance a) (accounts st) \<Longrightarrow>
   list_all (\<lambda>a. 0 \<le> balance a) (accounts (snd (post_account e r ty mb ir nom st)))"
  by (simp add: post_account_writes_nothing)

lemma put_account_nonneg:
  assumes "list_all (\<lambda>a. 0 \<le> balance a) (accounts st)"
  shows "list_all (\<lambda>a. 0 \<le> balance a) (accounts (snd (put_account r a nom st)))"
proof (cases "findById st a")
  case None
  with assms show ?thesis by (simp add: put_account_def)
next
  case (Some acc)
  then have "acc \<in> set (accounts st)" by (simp add: findById_SomeD)
  with assms have "0 \<le> balance acc" by (simp add: list_all_iff)
  then have "0 \<le> balance (case nom of None \<Rightarrow> acc
               | Some n \<Rightarrow> acc\<lparr>nomineeDetails := Some (sanitize_nominee n)\<rparr>)"
    by (simp split: option.splits)
  with assms Some show ?thesis
    by (simp add: put_account_def Let_def replace_nonneg)
qed

lemma put_deactivate_nonneg:
  "list_all (\<lambda>a. 0 \<le> balance a) (accounts st) \<Longrightarrow>
   list_all (\<lambda>a. 0 \<le> balance a) (accounts (snd (put_deactivate r a st)))"
  by (auto simp: put_deactivate_def Let_def
      split: option.splits sum.splits dest: Account_save_nonneg)

lemma valid_description_trim:
  "valid_description d \<Longrightarrow> trim d \<noteq> [] \<and> length (trim d) \<le> 200"
  by (simp add: valid_description_def)

lemma answer_validation [simp]:
  "answer (Uncaught (ValidationError path)) = Error 400 ValidationErrorMessage"
  by (simp add: answer_def error_middleware_def)

lemma post_withdraw_no_success: "fst (post_withdraw e r a amt d st) \<noteq> Success c p"
  by (simp add: post_withdraw_def Let_def Transaction_save_new split: option.splits sum.splits)

lemma post_deposit_no_success: "fst (post_deposit e r a amt d refno st) \<noteq> Success c p"
  by (simp add: post_deposit_def Let_def Transaction_save_new split: option.splits sum.splits)

lemmas handler_simps =
  post_deposit_def post_withdraw_def post_transfer_def transfer_try_def post_account_def
  findById_def Account_validate_def Account_replace_def Account_save_def
  session_Account_save_def new_Transaction_def Transaction_validate_def Transaction_save_def
  session_Transaction_save_def new_Account_def Account_insert_def

section \<open>Claims\<close>

text \<open>
  Claim C1 asks that a transfer between accounts of two different banks, by a caller who
  is not a super admin, be refused as a cross-tenant access before any write. The handler
  never compares the two banks. Such a transfer, when the caller may debit the source
  account and the source has the funds, passes every check of the handler, enters the
  session and issues the debit of the source and the credit of the destination in the
  other bank. What stops it is the save of the Transaction record, refused for want of a
  transaction id exactly as for a transfer inside one bank: the session is aborted, the
  store is left as it was, and the client gets the 400 of a validation error.
\<close>

theorem cross_tenant_transfer_not_refused:
  assumes src: "findById st f = Some fa" and dst: "findById st t = Some ta" and ne: "f \<noteq> t"
      and tenants: "cooperativeBankId fa \<noteq> cooperativeBankId ta"
      and role: "user_role r \<noteq> super_admin"
      and auth: "userId fa = user_id r \<or> user_role r = admin \<or> user_role r = manager"
      and active: "isActive fa" "isActive ta"
      and amt: "1 / 100 \<le> amt" and descr: "valid_description d"
      and funds: "amt \<le> balance fa - minimumBalance fa"
      and schema: "Account_validate fa = None" "Account_validate ta = None"
  shows "transfer_try e r fa ta amt (trim d) st =
           (Inl (ValidationError ''transactionId''),
            [SaveAccount (fa\<lparr>balance := balance fa - amt,
                              lastTransactionDate := Some (Date_now e)\<rparr>),
             SaveAccount (ta\<lparr>balance := balance ta + amt,
                              lastTransactionDate := Some (Date_now e)\<rparr>)]) \<and>
         post_transfer e r f t amt d st = (Uncaught (ValidationError ''transactionId''), st) \<and>
         answer (fst (post_transfer e r f t amt d st)) = Error 400 ValidationErrorMessage"
proof -
  from schema funds amt have
    "Account_validate (fa\<lparr>balance := balance fa - amt,
                          lastTransactionDate := Some (Date_now e)\<rparr>) = None"
    "Account_validate (ta\<lparr>balance := balance ta + amt,
                          lastTransactionDate := Some (Date_now e)\<rparr>) = None"
    by (simp_all add: Account_validate_None)
  from transfer_try_staged [OF this] have staged:
    "transfer_try e r fa ta amt (trim d) st =
       (Inl (ValidationError ''transactionId''),
        [SaveAccount (fa\<lparr>balance := balance fa - amt,
                          lastTransactionDate := Some (Date_now e)\<rparr>),
         SaveAccount (ta\<lparr>balance := balance ta + amt,
                          lastTransactionDate := Some (Date_now e)\<rparr>)])" .
  with src dst ne auth active amt descr funds
  have run: "post_transfer e r f t amt d st = (Uncaught (ValidationError ''transactionId''), st)"
    by (auto simp: post_transfer_def valid_amount_def Let_def)
  from staged run show ?thesis by simp
qed

theorem cross_tenant_transfer_not_refused_witness:
  "cooperativeBankId acctA = 100 \<and> cooperativeBankId acctC = 200 \<and> user_role user10 = member \<and>
   saved_ids (snd (transfer_try clock user10 acctA acctC 2000 ''gift'' bank_db)) = [1, 3] \<and>
   post_transfer clock user10 1 3 2000 ''gift'' bank_db
     = (Uncaught (ValidationError ''transactionId''), bank_db) \<and>
   answer (fst (post_transfer clock user10 1 3 2000 ''gift'' bank_db))
     = Error 400 ValidationErrorMessage"
  using cross_tenant_transfer_not_refused
          [of bank_db 1 acctA 3 acctC user10 2000 "''gift''" clock]
  by (simp add: example_simps findById_def Account_validate_def valid_description_def
      string_simps)

text \<open>
  Claim C2 asks that the balance write and the Transaction record of a deposit, a
  withdrawal or a transfer commit together or not at all. The transfer stages its writes in
  a session and aborts it on any exception. The deposit (and the withdrawal) saves the
  account first and the Transaction record afterwards, with no session, and the second save
  is refused for want of a transaction id: the exception reaches the error middleware, the
  client gets a 400, the new balance stays in the store and the ledger has no record of it.
\<close>

theorem deposit_balance_kept_without_record:
  assumes found: "findById st a = Some acc"
      and active: "isActive acc"
      and auth: "userId acc = user_id r \<or> user_role r = admin \<or> user_role r = manager"
      and amt: "1 / 100 \<le> amt"
      and descr: "valid_description d"
      and refno: "valid_referenceNumber ref"
      and schema: "Account_validate acc = None"
  shows "fst (post_deposit e r a amt d ref st) = Uncaught (ValidationError ''transactionId'') \<and>
         answer (fst (post_deposit e r a amt d ref st)) = Error 400 ValidationErrorMessage \<and>
         map_option balance (findById (snd (post_deposit e r a amt d ref st)) a)
           = Some (balance acc + amt) \<and>
         transactions (snd (post_deposit e r a amt d ref st)) = transactions st"
proof -
  let ?acc1 = "acc\<lparr>balance := balance acc + amt, lastTransactionDate := Some (Date_now e)\<rparr>"
  from schema amt have "Account_validate ?acc1 = None"
    by (simp add: Account_validate_None)
  then have saved: "Account_save ?acc1 st = Inr (Account_replace ?acc1 st)"
    by (simp add: Account_save_Inr)
  have run: "post_deposit e r a amt d ref st =
               (Uncaught (ValidationError ''transactionId''), Account_replace ?acc1 st)"
    using found active auth amt descr refno saved
    by (auto simp: post_deposit_def valid_amount_def Let_def Transaction_save_new)
  have "account_id ?acc1 = a"
    using found by (simp add: findById_account_id)
  then have "findById (Account_replace ?acc1 st) a = Some ?acc1"
    using findById_replace_same [of st ?acc1] found by simp
  then show ?thesis
    by (simp add: run)
qed

theorem deposit_balance_kept_without_record_witness:
  "map_option balance (findById bank_db 1) = Some 5000 \<and> transactions bank_db = [] \<and>
   fst (post_deposit clock user10 1 100 ''cash'' None bank_db)
     = Uncaught (ValidationError ''transactionId'') \<and>
   map_option balance (findById (snd (post_deposit clock user10 1 100 ''cash'' None bank_db)) 1)
     = Some 5100 \<and>
   transactions (snd (post_deposit clock user10 1 100 ''cash'' None bank_db)) = []"
  using deposit_balance_kept_without_record [of bank_db 1 acctA user10 100 "''cash''" None clock]
  by (simp add: example_simps findById_def Account_validate_def validator_simps string_simps)




text \<open>
  Claim C4 asks that every account creation assign the next number of the account's bank
  and that the first account of each of two banks be created. No account creation assigns
  a number: the document that POST / builds has no account number, the validators, which
  require one, run before the hook that would write it, and the save is refused. No
  request to POST / answers with success or changes the store; a request that passes the
  checks of the handler is answered with the 400 of a validation error.
\<close>

theorem account_creation_refused:
  "fst (post_account e r ty minBal rate nom st) \<noteq> Success c p \<and>
   snd (post_account e r ty minBal rate nom st) = st \<and>
   (valid_optional (\<lambda>m. 0 \<le> m) minBal \<and> valid_optional (\<lambda>i. 0 \<le> i) rate \<and>
    valid_optional valid_nominee nom \<and>
    \<not> list_ex (\<lambda>a. userId a = user_id r \<and> accountType a = ty \<and> isActive a) (accounts st) \<and>
    req_cooperativeBankId r \<noteq> None
    \<longrightarrow> fst (post_account e r ty minBal rate nom st) = Uncaught (ValidationError ''accountNumber'') \<and>
        answer (fst (post_account e r ty minBal rate nom st)) = Error 400 ValidationErrorMessage)"
proof (intro conjI impI)
  show "fst (post_account e r ty minBal rate nom st) \<noteq> Success c p"
    by (rule post_account_no_success)
  show "snd (post_account e r ty minBal rate nom st) = st"
    by (rule post_account_writes_nothing)
  assume ok: "valid_optional (\<lambda>m. 0 \<le> m) minBal \<and> valid_optional (\<lambda>i. 0 \<le> i) rate \<and>
    valid_optional valid_nominee nom \<and>
    \<not> list_ex (\<lambda>a. userId a = user_id r \<and> accountType a = ty \<and> isActive a) (accounts st) \<and>
    req_cooperativeBankId r \<noteq> None"
  then show refused:
    "fst (post_account e r ty minBal rate nom st) = Uncaught (ValidationError ''accountNumber'')"
    by (auto simp: post_account_def Account_insert_new)
  then show "answer (fst (post_account e r ty minBal rate nom st)) = Error 400 ValidationErrorMessage"
    by simp
qed

theorem account_creation_refused_witness:
  "accounts empty_db = [] \<and> req_cooperativeBankId user20 = Some 200 \<and>
   post_account clock user20 savings None None None empty_db
     = (Uncaught (ValidationError ''accountNumber''), empty_db) \<and>
   answer (fst (post_account clock user20 savings None None None empty_db))
     = Error 400 ValidationErrorMessage"
  using account_creation_refused [of clock user20 savings None None None empty_db]
  by (simp add: example_simps valid_optional_def prod_eq_iff)

text \<open>
  The hook and the unique index do not fit together either. The hook counts the accounts
  of one bank, the index on the account number spans all banks: in a store whose one
  account, of bank 200, has the number \<^verbatim>\<open>000000000001\<close>, the hook gives the first account of
  bank 100 the same number, which the index refuses.
\<close>

lemma first_numbers_of_two_banks_clash:
  "countDocuments one_account_db 100 = 0 \<and>
   accountNumber (Account_pre_save draft_account_100 one_account_db) = ''000000000001'' \<and>
   Account_unique (Account_pre_save draft_account_100 one_account_db) (accounts one_account_db)
     = Some (DuplicateKey ''accountNumber'')"
  by (simp add: Account_pre_save_def Account_unique_def countDocuments_def new_Account_def
      or_default_def example_simps string_simps)

text \<open>
  Claim C5 asks that a withdrawal within the available balance succeed and leave the old
  balance minus the amount. No withdrawal succeeds: within the available balance the
  handler saves the debited account and then the Transaction record, whose save is refused
  for want of a transaction id. For account A (balance 5000, minimum balance 1000) and a
  withdrawal of 4000 the client gets a 400, the store holds the balance 1000 and the
  ledger has no record. Beyond the available balance the handler does refuse as the claim
  says: with balance 1000 and minimum balance 1000 a withdrawal of 1 is answered with the
  400 that reports 0 as available, and nothing is written.
\<close>

theorem withdraw_debits_without_record:
  "map_option balance (findById bank_db 1) = Some 5000 \<and>
   map_option minimumBalance (findById bank_db 1) = Some 1000 \<and>
   fst (post_withdraw clock user10 1 4000 ''cash'' bank_db)
     = Uncaught (ValidationError ''transactionId'') \<and>
   answer (fst (post_withdraw clock user10 1 4000 ''cash'' bank_db))
     = Error 400 ValidationErrorMessage \<and>
   map_option balance (findById (snd (post_withdraw clock user10 1 4000 ''cash'' bank_db)) 1)
     = Some 1000 \<and>
   transactions (snd (post_withdraw clock user10 1 4000 ''cash'' bank_db)) = [] \<and>
   map_option balance (findById bank_db 4) = Some 1000 \<and>
   map_option minimumBalance (findById bank_db 4) = Some 1000 \<and>
   post_withdraw clock user10 4 1 ''cash'' bank_db = (Error 400 (InsufficientBalance 0), bank_db)"
  by (simp add: handler_simps example_simps validator_simps string_simps Let_def)

text \<open>
  Claim C6 asks that a successful transfer move the amount from the source to the
  destination and append one Transaction record, as in the scenario of A with 5000 sending
  2000 to B with 500. No transfer succeeds: the save of the Transaction record is refused
  for want of a transaction id, the session is aborted, and every request to POST /transfer
  leaves the store as it was. In the scenario the client gets a 400, A still has 5000, B
  still has 500 and the ledger is empty.
\<close>

theorem transfer_never_completes:
  assumes "post_transfer e r f t amt d st = (res, st1)"
  shows "res \<noteq> Success c p \<and> st1 = st"
  using assms post_transfer_no_success [of e r f t amt d st c p]
    post_transfer_writes_nothing [of e r f t amt d st]
  by auto

lemma example_transfer:
  "fst (post_transfer clock user10 1 2 2000 ''rent'' bank_db)
     = Uncaught (ValidationError ''transactionId'')"
  by (simp add: handler_simps example_simps validator_simps string_simps Let_def)

theorem transfer_never_completes_witness:
  "post_transfer clock user10 1 2 2000 ''rent'' bank_db
     = (Uncaught (ValidationError ''transactionId''), bank_db) \<and>
   answer (Uncaught (ValidationError ''transactionId'')) = Error 400 ValidationErrorMessage \<and>
   map_option balance (findById bank_db 1) = Some 5000 \<and>
   map_option balance (findById bank_db 2) = Some 500 \<and>
   transactions bank_db = []"
proof -
  have run: "post_transfer clock user10 1 2 2000 ''rent'' bank_db
               = (fst (post_transfer clock user10 1 2 2000 ''rent'' bank_db),
                  snd (post_transfer clock user10 1 2 2000 ''rent'' bank_db))"
    by simp
  from transfer_never_completes [OF run]
  have "snd (post_transfer clock user10 1 2 2000 ''rent'' bank_db) = bank_db"
    by simp
  with example_transfer
  have "post_transfer clock user10 1 2 2000 ''rent'' bank_db
          = (Uncaught (ValidationError ''transactionId''), bank_db)"
    by (simp add: prod_eq_iff)
  then show ?thesis
    by (simp add: findById_def example_simps)
qed

text \<open>
  Claim C7. Every operation of the system (account creation, deposit, withdrawal, transfer,
  account update, deactivation) keeps every balance non-negative: from a state in which
  all balances and all minimum balances are non-negative, no operation, whatever its
  caller, its arguments and its outcome, reaches a state with a negative balance.
\<close>

theorem handle_preserves_nonneg_balance:
  assumes "list_all (\<lambda>a. 0 \<le> balance a) (accounts st)"
      and "list_all (\<lambda>a. 0 \<le> minimumBalance a) (accounts st)"
  shows "list_all (\<lambda>a. 0 \<le> balance a) (accounts (snd (handle e r opn st)))"
  using assms(1)
  by (cases opn)
     (simp_all add: post_account_nonneg post_deposit_nonneg post_withdraw_nonneg
        post_transfer_nonneg put_account_nonneg put_deactivate_nonneg)

theorem handle_preserves_nonneg_balance_witness:
  "list_all (\<lambda>a. 0 \<le> balance a) (accounts bank_db) \<and>
   list_all (\<lambda>a. 0 \<le> minimumBalance a) (accounts bank_db) \<and>
   list_all (\<lambda>a. 0 \<le> balance a)
     (accounts (snd (handle clock user10 (Withdraw 1 4000 ''rent'') bank_db)))"
  using handle_preserves_nonneg_balance [of bank_db clock user10 "Withdraw 1 4000 ''rent''"]
  by (simp add: example_simps)

text \<open>
  Claim C8. For an account that exists and satisfies its schema, and a caller who owns it
  or is an admin or manager: deactivation succeeds if and only if the account is active
  and its balance is exactly zero. When the balance is not zero it fails with a 400 error
  and writes nothing, so the active flag and the balance stay as they were. When it
  succeeds, the stored account is inactive and its balance is still zero.
\<close>

theorem deactivate_iff_active_zero:
  assumes found: "findById st a = Some acc"
      and auth: "userId acc = user_id r \<or> user_role r = admin \<or> user_role r = manager"
      and schema: "Account_validate acc = None"
  shows "((\<exists>p st1. put_deactivate r a st = (Success 200 p, st1)) \<longleftrightarrow>
            isActive acc \<and> balance acc = 0) \<and>
         (balance acc \<noteq> 0 \<longrightarrow>
            put_deactivate r a st =
              (Error 400 (if isActive acc then RemainingBalance else AlreadyDeactivated), st)) \<and>
         (isActive acc \<and> balance acc = 0 \<longrightarrow>
            map_option isActive (findById (snd (put_deactivate r a st)) a) = Some False \<and>
            map_option balance (findById (snd (put_deactivate r a st)) a) = Some 0)"
proof -
  from schema have nonneg: "0 \<le> balance acc"
    by (simp add: Account_validate_None)
  let ?acc1 = "acc\<lparr>isActive := False\<rparr>"
  from schema have "Account_validate ?acc1 = None"
    by (simp add: Account_validate_None)
  then have saved: "Account_save ?acc1 st = Inr (Account_replace ?acc1 st)"
    by (simp add: Account_save_Inr)
  have run: "put_deactivate r a st =
               (if \<not> isActive acc then (Error 400 AlreadyDeactivated, st)
                else if balance acc \<noteq> 0 then (Error 400 RemainingBalance, st)
                else (Success 200 (AccountResult ?acc1), Account_replace ?acc1 st))"
    using found auth nonneg saved by (auto simp: put_deactivate_def Let_def)
  have "account_id ?acc1 = a"
    using found by (simp add: findById_account_id)
  then have stored: "findById (Account_replace ?acc1 st) a = Some ?acc1"
    using findById_replace_same [of st ?acc1] found by simp
  show ?thesis
    using stored by (auto simp: run)
qed

theorem deactivate_iff_active_zero_witness:
  "findById bank_db 5 = Some acctE \<and> balance acctE = 0 \<and>
   (\<exists>p st1. put_deactivate user10 5 bank_db = (Success 200 p, st1)) \<and>
   map_option isActive (findById (snd (put_deactivate user10 5 bank_db)) 5) = Some False \<and>
   findById bank_db 1 = Some acctA \<and> balance acctA = 5000 \<and>
   put_deactivate user10 1 bank_db = (Error 400 RemainingBalance, bank_db)"
  using deactivate_iff_active_zero [of bank_db 5 acctE user10]
    deactivate_iff_active_zero [of bank_db 1 acctA user10]
  by (simp add: example_simps findById_def Account_validate_def)




text \<open>
  Claim C10. The module \<^verbatim>\<open>routes/transactions.js\<close> binds no name \<^verbatim>\<open>authorizeBankAccess\<close>
  (of the auth middleware it binds \<^verbatim>\<open>authenticateToken\<close> and \<^verbatim>\<open>authorizeRoles\<close> only), and
  the registrations of GET /admin/all-transactions and GET /admin/stats evaluate it. So
  loading the module throws a ReferenceError for that name, no router is exported, and no
  request to either admin endpoint is served.
\<close>

theorem transactions_module_unbound_identifier:
  "''authorizeBankAccess'' \<notin> set (concat (map binds transactions_js)) \<and>
   ''authenticateToken'' \<in> set (concat (map binds transactions_js)) \<and>
   ''authorizeRoles'' \<in> set (concat (map binds transactions_js)) \<and>
   require_module transactions_js = Inl (ReferenceError ''authorizeBankAccess'') \<and>
   \<not> served transactions_js GET ''/admin/all-transactions'' \<and>
   \<not> served transactions_js GET ''/admin/stats''"
  by (simp add: transactions_js_def require_module_def served_def unbound_def)

end
